theory Spec2Isabelle
  imports Main "HOL-Library.AList"
begin

section \<open>JavaScript values\<close>

text \<open>
  The program is the React front end \<^verbatim>\<open>src/frontend/src/App.js\<close>. A JavaScript string
  is a sequence of UTF-16 code units; a code unit is a natural number here, and \<open>js\<close>
  turns an ASCII literal into such a sequence.
\<close>

type_synonym jsstring = "nat list"

definition js :: "string \<Rightarrow> jsstring" where
  "js s = map of_char s"

text \<open>
  The values that \<^verbatim>\<open>JSON.parse\<close> and the HTTP responses produce, and \<^verbatim>\<open>undefined\<close>.
  A number \<open>JNumber m e\<close> is the decimal \<open>m * 10 ^ e\<close> that its literal denotes; the
  rounding to an IEEE double is not part of the model. An object is the list of its own
  properties in insertion order, with distinct keys.
\<close>

datatype jsval =
    JUndefined
  | JNull
  | JBool bool
  | JNumber int int
  | JString jsstring
  | JArray "jsval list"
  | JObject "(jsstring \<times> jsval) list"

text \<open>ToBoolean, as used by \<^verbatim>\<open>!x\<close>, \<^verbatim>\<open>x && y\<close>, \<^verbatim>\<open>x || y\<close> and \<^verbatim>\<open>x ? a : b\<close>.\<close>

fun truthy :: "jsval \<Rightarrow> bool" where
  "truthy JUndefined = False"
| "truthy JNull = False"
| "truthy (JBool b) = b"
| "truthy (JNumber m e) = (m \<noteq> 0)"
| "truthy (JString s) = (s \<noteq> [])"
| "truthy (JArray vs) = True"
| "truthy (JObject kvs) = True"

text \<open>
  Reading a property \<open>k\<close> that no prototype defines (\<^verbatim>\<open>detail\<close>, a header name): an
  object gives its own property or \<^verbatim>\<open>undefined\<close>, every other value \<^verbatim>\<open>undefined\<close>
  (optional chaining \<^verbatim>\<open>?.\<close> makes that true of \<^verbatim>\<open>null\<close> and \<^verbatim>\<open>undefined\<close> too).
\<close>

fun get_prop :: "jsval \<Rightarrow> jsstring \<Rightarrow> jsval" where
  "get_prop (JObject kvs) k = (case map_of kvs k of Some v \<Rightarrow> v | None \<Rightarrow> JUndefined)"
| "get_prop v k = JUndefined"

section \<open>JSON.parse\<close>

text \<open>
  \<^verbatim>\<open>JSON.parse\<close> is a built-in of the language. It is modelled after the JSON grammar
  of ECMA-404: a lexer that reads one code unit at a time, and a pushdown automaton over
  the tokens. \<open>None\<close> stands for the \<^verbatim>\<open>SyntaxError\<close> it throws.
\<close>

datatype token =
    TLBrace | TRBrace | TLBracket | TRBracket | TColon | TComma
  | TString jsstring
  | TWord jsstring

datatype lstate =
    LStart
  | LWord jsstring
  | LStr jsstring
  | LEsc jsstring
  | LHex jsstring "nat list"

definition is_json_ws :: "nat \<Rightarrow> bool" where
  "is_json_ws c = (c = 32 \<or> c = 9 \<or> c = 10 \<or> c = 13)"

definition is_digit :: "nat \<Rightarrow> bool" where
  "is_digit c = (48 \<le> c \<and> c \<le> 57)"

text \<open>The code units a number literal or \<^verbatim>\<open>true\<close>, \<^verbatim>\<open>false\<close>, \<^verbatim>\<open>null\<close> is made of.\<close>

definition is_word_char :: "nat \<Rightarrow> bool" where
  "is_word_char c =
     (is_digit c \<or> (97 \<le> c \<and> c \<le> 122) \<or> (65 \<le> c \<and> c \<le> 90) \<or> c = 43 \<or> c = 45 \<or> c = 46)"

definition hex_val :: "nat \<Rightarrow> nat option" where
  "hex_val c =
     (if is_digit c then Some (c - 48)
      else if 97 \<le> c \<and> c \<le> 102 then Some (c - 87)
      else if 65 \<le> c \<and> c \<le> 70 then Some (c - 55)
      else None)"

definition unescape :: "nat \<Rightarrow> nat option" where
  "unescape c =
     (if c = 34 \<or> c = 92 \<or> c = 47 then Some c
      else if c = 98 then Some 8
      else if c = 102 then Some 12
      else if c = 110 then Some 10
      else if c = 114 then Some 13
      else if c = 116 then Some 9
      else None)"

definition emit :: "token \<Rightarrow> token list option \<Rightarrow> token list option" where
  "emit t r = map_option ((#) t) r"

function json_lex :: "lstate \<Rightarrow> jsstring \<Rightarrow> token list option" where
  "json_lex LStart [] = Some []"
| "json_lex (LWord a) [] = Some [TWord (rev a)]"
| "json_lex (LStr a) [] = None"
| "json_lex (LEsc a) [] = None"
| "json_lex (LHex a ds) [] = None"
| "json_lex LStart (c # cs) =
     (if is_json_ws c then json_lex LStart cs
      else if c = 123 then emit TLBrace (json_lex LStart cs)
      else if c = 125 then emit TRBrace (json_lex LStart cs)
      else if c = 91 then emit TLBracket (json_lex LStart cs)
      else if c = 93 then emit TRBracket (json_lex LStart cs)
      else if c = 58 then emit TColon (json_lex LStart cs)
      else if c = 44 then emit TComma (json_lex LStart cs)
      else if c = 34 then json_lex (LStr []) cs
      else if is_word_char c then json_lex (LWord [c]) cs
      else None)"
| "json_lex (LWord a) (c # cs) =
     (if is_word_char c then json_lex (LWord (c # a)) cs
      else emit (TWord (rev a)) (json_lex LStart (c # cs)))"
| "json_lex (LStr a) (c # cs) =
     (if c = 34 then emit (TString (rev a)) (json_lex LStart cs)
      else if c = 92 then json_lex (LEsc a) cs
      else if c < 32 then None
      else json_lex (LStr (c # a)) cs)"
| "json_lex (LEsc a) (c # cs) =
     (if c = 117 then json_lex (LHex a []) cs
      else case unescape c of
             Some d \<Rightarrow> json_lex (LStr (d # a)) cs
           | None \<Rightarrow> None)"
| "json_lex (LHex a ds) (c # cs) =
     (case hex_val c of
        None \<Rightarrow> None
      | Some d \<Rightarrow>
          if length ds = 3 then json_lex (LStr (foldl (\<lambda>n h. 16 * n + h) 0 (ds @ [d]) # a)) cs
          else json_lex (LHex a (ds @ [d])) cs)"
  by pat_completeness auto
termination
  by (relation "measure (\<lambda>(s, cs). 2 * length cs + (case s of LWord a \<Rightarrow> 1 | _ \<Rightarrow> 0))") auto

text \<open>
  A number literal: \<^verbatim>\<open>-? (0 | [1-9][0-9]*) (. [0-9]+)? ([eE] [+-]? [0-9]+)?\<close>.
\<close>

definition digits_val :: "jsstring \<Rightarrow> nat" where
  "digits_val ds = foldl (\<lambda>n c. 10 * n + (c - 48)) 0 ds"

definition json_exponent :: "jsstring \<Rightarrow> int option" where
  "json_exponent r =
     (case r of
        [] \<Rightarrow> Some 0
      | c # cs \<Rightarrow>
          if c = 101 \<or> c = 69 then
            (let neg = (case cs of s # _ \<Rightarrow> s = 45 | [] \<Rightarrow> False);
                 ds = (case cs of s # ss \<Rightarrow> if s = 45 \<or> s = 43 then ss else cs | [] \<Rightarrow> cs)
             in if ds \<noteq> [] \<and> list_all is_digit ds
                then Some (if neg then - int (digits_val ds) else int (digits_val ds))
                else None)
          else None)"

definition json_number :: "jsstring \<Rightarrow> jsval option" where
  "json_number w =
     (let neg = (case w of c # _ \<Rightarrow> c = 45 | [] \<Rightarrow> False);
          r = (if neg then tl w else w);
          ip = takeWhile is_digit r;
          r1 = dropWhile is_digit r;
          has_frac = (case r1 of c # _ \<Rightarrow> c = 46 | [] \<Rightarrow> False);
          fp = (if has_frac then takeWhile is_digit (tl r1) else []);
          r2 = (if has_frac then dropWhile is_digit (tl r1) else r1)
      in if ip = [] \<or> (1 < length ip \<and> hd ip = 48) \<or> (has_frac \<and> fp = []) then None
         else case json_exponent r2 of
                None \<Rightarrow> None
              | Some ex \<Rightarrow>
                  Some (JNumber (if neg then - int (digits_val (ip @ fp)) else int (digits_val (ip @ fp)))
                                (ex - int (length fp))))"

definition word_value :: "jsstring \<Rightarrow> jsval option" where
  "word_value w =
     (if w = js ''true'' then Some (JBool True)
      else if w = js ''false'' then Some (JBool False)
      else if w = js ''null'' then Some JNull
      else json_number w)"

text \<open>
  The automaton. A frame is a container under construction: an array with its elements
  so far (latest first), an object with its properties so far, or an object whose key
  \<open>k\<close> awaits its value. A repeated key overwrites the earlier value in place.
\<close>

datatype frame =
    FArr "jsval list"
  | FObj "(jsstring \<times> jsval) list"
  | FKey "(jsstring \<times> jsval) list" jsstring

datatype pmode = MValue | MArrFirst | MObjFirst | MKey | MColon | MNext

datatype pstate = PRun pmode "frame list" | PDone jsval | PFail

fun deliver :: "jsval \<Rightarrow> frame list \<Rightarrow> pstate" where
  "deliver v [] = PDone v"
| "deliver v (FArr vs # st) = PRun MNext (FArr (v # vs) # st)"
| "deliver v (FKey kvs k # st) = PRun MNext (FObj (AList.update k v kvs) # st)"
| "deliver v (FObj kvs # st) = PFail"

fun open_value :: "token \<Rightarrow> frame list \<Rightarrow> pstate" where
  "open_value TLBracket st = PRun MArrFirst (FArr [] # st)"
| "open_value TLBrace st = PRun MObjFirst (FObj [] # st)"
| "open_value (TString s) st = deliver (JString s) st"
| "open_value (TWord w) st = (case word_value w of Some v \<Rightarrow> deliver v st | None \<Rightarrow> PFail)"
| "open_value t st = PFail"

fun close_array :: "frame list \<Rightarrow> pstate" where
  "close_array (FArr vs # st) = deliver (JArray (rev vs)) st"
| "close_array st = PFail"

fun close_object :: "frame list \<Rightarrow> pstate" where
  "close_object (FObj kvs # st) = deliver (JObject kvs) st"
| "close_object st = PFail"

fun open_key :: "jsstring \<Rightarrow> frame list \<Rightarrow> pstate" where
  "open_key k (FObj kvs # st) = PRun MColon (FKey kvs k # st)"
| "open_key k st = PFail"

fun after_comma :: "frame list \<Rightarrow> pstate" where
  "after_comma (FArr vs # st) = PRun MValue (FArr vs # st)"
| "after_comma (FObj kvs # st) = PRun MKey (FObj kvs # st)"
| "after_comma st = PFail"

fun step :: "pmode \<Rightarrow> frame list \<Rightarrow> token \<Rightarrow> pstate" where
  "step MValue st t = open_value t st"
| "step MArrFirst st t = (if t = TRBracket then close_array st else open_value t st)"
| "step MObjFirst st t =
     (case t of TRBrace \<Rightarrow> close_object st | TString k \<Rightarrow> open_key k st | _ \<Rightarrow> PFail)"
| "step MKey st t = (case t of TString k \<Rightarrow> open_key k st | _ \<Rightarrow> PFail)"
| "step MColon st t = (if t = TColon then PRun MValue st else PFail)"
| "step MNext st t =
     (case t of
        TComma \<Rightarrow> after_comma st
      | TRBracket \<Rightarrow> close_array st
      | TRBrace \<Rightarrow> close_object st
      | _ \<Rightarrow> PFail)"

fun run :: "pstate \<Rightarrow> token list \<Rightarrow> jsval option" where
  "run (PDone v) [] = Some v"
| "run (PRun m st) (t # ts) = run (step m st t) ts"
| "run p ts = None"

definition JSON_parse :: "jsstring \<Rightarrow> jsval option" where
  "JSON_parse s = (case json_lex LStart s of None \<Rightarrow> None | Some ts \<Rightarrow> run (PRun MValue []) ts)"

section \<open>String operations\<close>

text \<open>
  \<^verbatim>\<open>String.prototype.trim\<close> strips the white space and line terminator code units of
  ECMA-262 from both ends.
\<close>

definition is_js_space :: "nat \<Rightarrow> bool" where
  "is_js_space c =
     (c = 9 \<or> c = 10 \<or> c = 11 \<or> c = 12 \<or> c = 13 \<or> c = 32 \<or> c = 160 \<or> c = 5760
      \<or> (8192 \<le> c \<and> c \<le> 8202) \<or> c = 8232 \<or> c = 8233 \<or> c = 8239 \<or> c = 8287
      \<or> c = 12288 \<or> c = 65279)"

definition trim :: "jsstring \<Rightarrow> jsstring" where
  "trim s = rev (dropWhile is_js_space (rev (dropWhile is_js_space s)))"

text \<open>
  \<^verbatim>\<open>s.split(sep)\<close> for a separator of one code unit: every occurrence separates, and
  the result always has at least one piece.
\<close>

fun str_split :: "nat \<Rightarrow> jsstring \<Rightarrow> jsstring list" where
  "str_split sep [] = [[]]"
| "str_split sep (c # cs) =
     (if c = sep then [] # str_split sep cs
      else case str_split sep cs of
             p # ps \<Rightarrow> (c # p) # ps
           | [] \<Rightarrow> [[c]])"

text \<open>The decimal form of an array index, as a property key.\<close>

fun show_nat :: "nat \<Rightarrow> jsstring" where
  "show_nat n = (if n < 10 then [48 + n] else show_nat (n div 10) @ [48 + n mod 10])"

section \<open>Objects\<close>

text \<open>
  \<^verbatim>\<open>obj[k] = v\<close> on an object literal, for a string \<open>v\<close>: the property is created or
  overwritten, except that the key \<^verbatim>\<open>__proto__\<close> reaches the prototype setter, which
  ignores a string and creates nothing.
\<close>

definition set_prop :: "(jsstring \<times> jsval) list \<Rightarrow> jsstring \<Rightarrow> jsval \<Rightarrow> (jsstring \<times> jsval) list" where
  "set_prop kvs k v = (if k = js ''__proto__'' then kvs else AList.update k v kvs)"

text \<open>
  The own enumerable properties that an object spread \<^verbatim>\<open>{...v}\<close> copies: those of an
  object, the indices of an array or of a string, and none of any other value.
\<close>

fun own_props :: "jsval \<Rightarrow> (jsstring \<times> jsval) list" where
  "own_props (JObject kvs) = kvs"
| "own_props (JArray vs) = zip (map show_nat [0..<length vs]) vs"
| "own_props (JString s) = zip (map show_nat [0..<length s]) (map (\<lambda>c. JString [c]) s)"
| "own_props v = []"

definition spread :: "(jsstring \<times> jsval) list \<Rightarrow> jsval \<Rightarrow> (jsstring \<times> jsval) list" where
  "spread kvs v = foldl (\<lambda>acc (k, x). AList.update k x acc) kvs (own_props v)"

section \<open>Header input: parseHeaders\<close>

text \<open>
  One round of the \<^verbatim>\<open>forEach\<close> of lines 152-157:
  \<^verbatim>\<open>const [key, value] = line.split(':'); if (key && value) headerObj[key.trim()] = value.trim()\<close>.
  The destructuring takes the first two pieces; with one piece only, \<^verbatim>\<open>value\<close> is
  \<^verbatim>\<open>undefined\<close> and the line is skipped.
\<close>

definition parseHeaders_line :: "(jsstring \<times> jsval) list \<Rightarrow> jsstring \<Rightarrow> (jsstring \<times> jsval) list" where
  "parseHeaders_line headerObj line =
     (case str_split 58 line of
        key # value # rest \<Rightarrow>
          if key \<noteq> [] \<and> value \<noteq> [] then set_prop headerObj (trim key) (JString (trim value))
          else headerObj
      | _ \<Rightarrow> headerObj)"

text \<open>The \<^verbatim>\<open>catch\<close> block of lines 150-159.\<close>

definition parseHeaders_fallback :: "jsstring \<Rightarrow> jsval" where
  "parseHeaders_fallback headers = JObject (foldl parseHeaders_line [] (str_split 10 headers))"

text \<open>Lines 146-160.\<close>

definition parseHeaders :: "jsstring \<Rightarrow> jsval" where
  "parseHeaders headers =
     (if headers = [] then JObject []
      else case JSON_parse headers of
             Some v \<Rightarrow> v
           | None \<Rightarrow> parseHeaders_fallback headers)"

section \<open>The application state and its surroundings\<close>

datatype toast = Toast_error string | Toast_success string

datatype http_call =
    Http_get jsstring
  | Http_post jsstring jsval
  | Http_put jsstring jsval
  | Http_delete jsstring

text \<open>
  What a \<^verbatim>\<open>catch\<close> block receives: the \<^verbatim>\<open>message\<close> of the error and, when it is an
  axios error that carries a response, the \<^verbatim>\<open>data\<close> of that response.
\<close>

record js_error =
  err_message :: jsstring
  err_response :: "jsval option"

datatype axios_result = Resolved jsval | Rejected js_error

text \<open>
  The surroundings of the component: the build-time \<^verbatim>\<open>REACT_APP_BACKEND_URL\<close>, the
  outcome of each axios call (\<open>Resolved\<close> with \<^verbatim>\<open>res.data\<close>, or \<open>Rejected\<close>), and the
  message the engine puts into the \<^verbatim>\<open>SyntaxError\<close> of \<^verbatim>\<open>JSON.parse\<close>.
\<close>

record env =
  BACKEND_URL :: jsstring
  axios_get :: "jsstring \<Rightarrow> axios_result"
  axios_post :: "jsstring \<Rightarrow> jsval \<Rightarrow> axios_result"
  axios_put :: "jsstring \<Rightarrow> jsval \<Rightarrow> axios_result"
  axios_delete :: "jsstring \<Rightarrow> axios_result"
  syntax_error_message :: "jsstring \<Rightarrow> jsstring"

definition API :: "env \<Rightarrow> jsstring" where
  "API env = BACKEND_URL env @ js ''/api''"

text \<open>
  The \<^verbatim>\<open>useState\<close> cells of \<^verbatim>\<open>App\<close> (lines 50-61), and two logs of what the component
  did to the outside: the notifications it raised and the HTTP calls it issued. The cell
  of the selected method is \<open>method_sel\<close>.
\<close>

record app =
  figmaToken :: jsstring
  showTokenDialog :: bool
  method_sel :: jsstring
  endpoint :: jsstring
  headers :: jsstring
  body :: jsstring
  response :: jsval
  loading :: bool
  savedRequests :: jsval
  history :: jsval
  activeTab :: jsstring
  selectedCategory :: jsstring
  toasts :: "toast list"
  requests :: "http_call list"

text \<open>Lines 87-94 and 78-85. The \<^verbatim>\<open>console.error\<close> of a failure is not recorded.\<close>

definition loadHistory :: "env \<Rightarrow> app \<Rightarrow> app" where
  "loadHistory env s =
     (let url = API env @ js ''/request-history'';
          s1 = s\<lparr>requests := requests s @ [Http_get url]\<rparr>
      in case axios_get env url of
           Resolved d \<Rightarrow> s1\<lparr>history := d\<rparr>
         | Rejected e \<Rightarrow> s1)"

definition loadSavedRequests :: "env \<Rightarrow> app \<Rightarrow> app" where
  "loadSavedRequests env s =
     (let url = API env @ js ''/saved-requests'';
          s1 = s\<lparr>requests := requests s @ [Http_get url]\<rparr>
      in case axios_get env url of
           Resolved d \<Rightarrow> s1\<lparr>savedRequests := d\<rparr>
         | Rejected e \<Rightarrow> s1)"

section \<open>executeRequest\<close>

text \<open>
  The three guards of lines 97-112, in their order. The names are those of the
  specification; each stands for the notification the guard raises.
\<close>

datatype ValidationError = MissingCredential | MissingEndpoint | UnresolvedPlaceholder

definition validate :: "jsstring \<Rightarrow> jsstring \<Rightarrow> ValidationError option" where
  "validate token ep =
     (if token = [] then Some MissingCredential
      else if ep = [] then Some MissingEndpoint
      else if 58 \<in> set ep then Some UnresolvedPlaceholder
      else None)"

fun validation_message :: "ValidationError \<Rightarrow> string" where
  "validation_message MissingCredential = ''Please add your Figma token first''"
| "validation_message MissingEndpoint = ''Please enter an endpoint''"
| "validation_message UnresolvedPlaceholder =
     ''Please replace placeholder parameters (e.g., :file_key) with actual values''"

definition reject :: "app \<Rightarrow> ValidationError \<Rightarrow> app" where
  "reject s err =
     s\<lparr>toasts := toasts s @ [Toast_error (validation_message err)],
       showTokenDialog := (if err = MissingCredential then True else showTokenDialog s)\<rparr>"

text \<open>Lines 116-120: the object literal with the spread last.\<close>

definition requestHeaders :: "jsstring \<Rightarrow> jsstring \<Rightarrow> (jsstring \<times> jsval) list" where
  "requestHeaders token hs =
     spread [(js ''X-Figma-Token'', JString token),
             (js ''Content-Type'', JString (js ''application/json''))]
            (parseHeaders hs)"

text \<open>Lines 135-140: \<^verbatim>\<open>error.response?.data?.detail || error.message\<close>.\<close>

definition error_detail :: "js_error \<Rightarrow> jsval" where
  "error_detail e = (case err_response e of None \<Rightarrow> JUndefined | Some d \<Rightarrow> get_prop d (js ''detail''))"

definition error_message :: "js_error \<Rightarrow> jsval" where
  "error_message e = (if truthy (error_detail e) then error_detail e else JString (err_message e))"

definition request_failed :: "app \<Rightarrow> js_error \<Rightarrow> app" where
  "request_failed s e =
     s\<lparr>response := JObject [(js ''error'', JBool True), (js ''message'', error_message e)],
       toasts := toasts s @ [Toast_error ''Request failed'']\<rparr>"

text \<open>Line 129: \<^verbatim>\<open>body ? JSON.parse(body) : null\<close>.\<close>

definition body_value :: "jsstring \<Rightarrow> jsval option" where
  "body_value b = (if b \<noteq> [] then JSON_parse b else Some JNull)"

text \<open>Lines 123 and 125-130.\<close>

definition apiEndpoint :: "env \<Rightarrow> jsstring \<Rightarrow> jsstring" where
  "apiEndpoint env m = (if m = js ''PAGE'' then API env @ js ''/figma/page'' else API env @ js ''/figma/proxy'')"

definition payload :: "app \<Rightarrow> jsval \<Rightarrow> jsval" where
  "payload s b =
     JObject [(js ''method'', JString (if method_sel s = js ''PAGE'' then js ''GET'' else method_sel s)),
              (js ''endpoint'', JString (endpoint s)),
              (js ''headers'', JObject (requestHeaders (figmaToken s) (headers s))),
              (js ''body'', b)]"

text \<open>Lines 96-144.\<close>

definition executeRequest :: "env \<Rightarrow> app \<Rightarrow> app" where
  "executeRequest env s =
     (case validate (figmaToken s) (endpoint s) of
        Some err \<Rightarrow> reject s err
      | None \<Rightarrow>
          let s1 = s\<lparr>loading := True\<rparr>;
              s2 = (case body_value (body s) of
                      None \<Rightarrow>
                        request_failed s1
                          \<lparr>err_message = syntax_error_message env (body s), err_response = None\<rparr>
                    | Some b \<Rightarrow>
                        let url = apiEndpoint env (method_sel s);
                            s3 = s1\<lparr>requests := requests s1 @ [Http_post url (payload s b)]\<rparr>
                        in case axios_post env url (payload s b) of
                             Resolved d \<Rightarrow>
                               loadHistory env
                                 (s3\<lparr>response := d,
                                     toasts := toasts s3 @ [Toast_success ''Request executed successfully'']\<rparr>)
                           | Rejected e \<Rightarrow> request_failed s3 e)
          in s2\<lparr>loading := False\<rparr>)"

section \<open>toggleFavorite and clearHistory\<close>

text \<open>
  Lines 200-207. The identifier is spliced into the URL; the payload has the one
  property \<^verbatim>\<open>is_favorite\<close>, the negation of the value the list showed.
\<close>

definition favorite_url :: "env \<Rightarrow> jsstring \<Rightarrow> jsstring" where
  "favorite_url env ident = API env @ js ''/saved-requests/'' @ ident"

definition favorite_patch :: "jsval \<Rightarrow> jsval" where
  "favorite_patch isFavorite = JObject [(js ''is_favorite'', JBool (\<not> truthy isFavorite))]"

definition toggleFavorite :: "env \<Rightarrow> jsstring \<Rightarrow> jsval \<Rightarrow> app \<Rightarrow> app" where
  "toggleFavorite env ident isFavorite s =
     (let url = favorite_url env ident;
          p = favorite_patch isFavorite;
          s1 = s\<lparr>requests := requests s @ [Http_put url p]\<rparr>
      in case axios_put env url p of
           Resolved d \<Rightarrow> loadSavedRequests env s1
         | Rejected e \<Rightarrow> s1\<lparr>toasts := toasts s1 @ [Toast_error ''Failed to update favorite'']\<rparr>)"

text \<open>Lines 209-217.\<close>

definition clearHistory :: "env \<Rightarrow> app \<Rightarrow> app" where
  "clearHistory env s =
     (let url = API env @ js ''/request-history'';
          s1 = s\<lparr>requests := requests s @ [Http_delete url]\<rparr>
      in case axios_delete env url of
           Resolved d \<Rightarrow>
             s1\<lparr>history := JArray [], toasts := toasts s1 @ [Toast_success ''History cleared'']\<rparr>
         | Rejected e \<Rightarrow> s1\<lparr>toasts := toasts s1 @ [Toast_error ''Failed to clear history'']\<rparr>)"

section \<open>The backend, as the specification describes it\<close>

text \<open>
  Modelled from the spec: the SavedRequest record of section 3. The backend that stores
  it is not under \<^verbatim>\<open>src/\<close>.
\<close>

record SavedRequest =
  sr_id :: jsstring
  sr_name :: jsstring
  sr_method :: jsstring
  sr_endpoint :: jsstring
  sr_headers :: jsval
  sr_body :: jsstring
  sr_category :: jsstring
  is_favorite :: bool
  created_at :: nat

text \<open>
  Modelled from the spec: the HistoryEntry record of section 3; \<open>None\<close> is the sentinel
  of a status code that a non-HTTP failure leaves absent.
\<close>

record HistoryEntry =
  h_method :: jsstring
  h_endpoint :: jsstring
  h_status_code :: "int option"
  h_timestamp :: nat

text \<open>Modelled from the spec: the failure \<^verbatim>\<open>Fails(NotFound)\<close> of the stores of section 4.5.\<close>

datatype store_error = NotFound

text \<open>
  Modelled from the spec: \<^verbatim>\<open>SavedRequestStore.patchFavorite(id, newValue)\<close> of section
  4.5, which sets \<^verbatim>\<open>is_favorite\<close> of the record with that id or fails with NotFound.
\<close>

fun patchFavorite :: "jsstring \<Rightarrow> bool \<Rightarrow> SavedRequest list \<Rightarrow> store_error + SavedRequest list" where
  "patchFavorite i b [] = Inl NotFound"
| "patchFavorite i b (r # rs) =
     (if sr_id r = i then Inr (r\<lparr>is_favorite := b\<rparr> # rs)
      else case patchFavorite i b rs of
             Inl e \<Rightarrow> Inl e
           | Inr rs' \<Rightarrow> Inr (r # rs'))"

text \<open>
  Modelled from the spec: \<^verbatim>\<open>HistoryStore.append(entry)\<close> of section 4.6. The store is
  the list of its entries in the order of the appends.
\<close>

definition history_append :: "HistoryEntry \<Rightarrow> HistoryEntry list \<Rightarrow> HistoryEntry list" where
  "history_append e h = h @ [e]"

text \<open>Modelled from the spec: \<^verbatim>\<open>HistoryStore.list()\<close> of section 4.6, most recent first.\<close>

definition history_list :: "HistoryEntry list \<Rightarrow> HistoryEntry list" where
  "history_list h = rev h"

text \<open>Modelled from the spec: \<^verbatim>\<open>HistoryStore.clear()\<close> of section 4.6.\<close>

definition history_clear :: "HistoryEntry list \<Rightarrow> HistoryEntry list" where
  "history_clear h = []"

text \<open>Modelled from the spec: the RequestSpec of section 3, as the backend receives it.\<close>

record RequestSpec =
  rs_method :: jsstring
  rs_endpoint :: jsstring
  rs_headers :: jsval
  rs_body :: jsval

text \<open>
  Modelled from the spec: the outcome of the upstream call of section 4.3, an answer with
  its HTTP status and body, or a transport failure with its message.
\<close>

datatype upstream = Answered int jsval | Unreachable jsstring

text \<open>
  Modelled from the spec: the envelope of sections 4.3 and 6,
  \<^verbatim>\<open>{error: false, status_code, data}\<close> or \<^verbatim>\<open>{error: true, message}\<close>.
\<close>

datatype envelope = Success (status_code: int) (data: jsval) | Failure (message: jsstring)

text \<open>Modelled from the spec: the \<^verbatim>\<open>error\<close> field of the envelope.\<close>

definition is_error :: "envelope \<Rightarrow> bool" where
  "is_error e = (case e of Success st d \<Rightarrow> False | Failure m \<Rightarrow> True)"

text \<open>
  Modelled from the spec: the entry that section 4.3 has every invocation append: method,
  endpoint, the resulting status code or the sentinel, and the time.
\<close>

definition history_entry :: "RequestSpec \<Rightarrow> upstream \<Rightarrow> nat \<Rightarrow> HistoryEntry" where
  "history_entry spec r now =
     \<lparr>h_method = rs_method spec, h_endpoint = rs_endpoint spec,
      h_status_code = (case r of Answered st d \<Rightarrow> Some st | Unreachable m \<Rightarrow> None),
      h_timestamp = now\<rparr>"

text \<open>
  Modelled from the spec: \<^verbatim>\<open>ProxyExecutor.execute\<close> of section 4.3. The upstream API is
  the function \<open>up\<close> of the method and the endpoint; every status it answers with is a
  success envelope, and every invocation appends one history entry.
\<close>

definition execute ::
  "(jsstring \<Rightarrow> jsstring \<Rightarrow> upstream) \<Rightarrow> RequestSpec \<Rightarrow> nat \<Rightarrow> HistoryEntry list
     \<Rightarrow> envelope \<times> HistoryEntry list" where
  "execute up spec now h =
     (let r = up (rs_method spec) (rs_endpoint spec)
      in (case r of Answered st d \<Rightarrow> Success st d | Unreachable m \<Rightarrow> Failure m,
          history_append (history_entry spec r now) h))"

text \<open>
  Modelled from the spec: the ordered children of the document of section 4.4, which the
  narrowing reads. The specification leaves the shape of the "no pages" indicator open;
  it is the parameter \<open>no_pages\<close> of what follows.
\<close>

definition children_of :: "jsval \<Rightarrow> jsval list" where
  "children_of file =
     (case get_prop (get_prop file (js ''document'')) (js ''children'') of
        JArray cs \<Rightarrow> cs
      | _ \<Rightarrow> [])"

text \<open>
  Modelled from the spec: the data of the page envelope of section 4.4, the first child
  or the indicator.
\<close>

definition first_page :: "jsval \<Rightarrow> jsval \<Rightarrow> jsval" where
  "first_page no_pages file = (case children_of file of [] \<Rightarrow> no_pages | c # cs \<Rightarrow> c)"

text \<open>
  Modelled from the spec: \<^verbatim>\<open>PageExtractor.executePage\<close> of section 4.4: the upstream
  call is a GET against the same endpoint, the data of a success envelope is narrowed,
  and the history entry keeps the method and the endpoint of the request.
\<close>

definition executePage ::
  "jsval \<Rightarrow> (jsstring \<Rightarrow> jsstring \<Rightarrow> upstream) \<Rightarrow> RequestSpec \<Rightarrow> nat \<Rightarrow> HistoryEntry list
     \<Rightarrow> envelope \<times> HistoryEntry list" where
  "executePage no_pages up spec now h =
     (let r = up (js ''GET'') (rs_endpoint spec)
      in (case r of Answered st d \<Rightarrow> Success st (first_page no_pages d) | Unreachable m \<Rightarrow> Failure m,
          history_append (history_entry spec r now) h))"

text \<open>
  Modelled from the spec: the reading of the request of section 6,
  \<^verbatim>\<open>{method, endpoint, headers, body}\<close>, into a RequestSpec under a given method label.
\<close>

definition str_of :: "jsval \<Rightarrow> jsstring" where
  "str_of v = (case v of JString x \<Rightarrow> x | _ \<Rightarrow> [])"

text \<open>Modelled from the spec: see \<open>str_of\<close>.\<close>

definition spec_of_payload :: "jsstring \<Rightarrow> jsval \<Rightarrow> RequestSpec" where
  "spec_of_payload m p =
     \<lparr>rs_method = m, rs_endpoint = str_of (get_prop p (js ''endpoint'')),
      rs_headers = get_prop p (js ''headers''), rs_body = get_prop p (js ''body'')\<rparr>"

text \<open>
  Modelled from the spec: the routes of section 6 that touch the HistoryStore, applied to
  one HTTP call of the front end. The state is the clock and the store. A POST to
  \<^verbatim>\<open>/figma/proxy\<close> is one invocation of \<open>execute\<close>, a POST to \<^verbatim>\<open>/figma/page\<close> one
  of \<open>executePage\<close> under the method label PAGE, a DELETE of \<^verbatim>\<open>/request-history\<close>
  clears; no other call changes the store.
\<close>

definition serve_history ::
  "jsstring \<Rightarrow> jsval \<Rightarrow> (jsstring \<Rightarrow> jsstring \<Rightarrow> upstream) \<Rightarrow> nat \<times> HistoryEntry list \<Rightarrow> http_call
     \<Rightarrow> nat \<times> HistoryEntry list" where
  "serve_history api no_pages up st call =
     (let now = fst st; h = snd st
      in case call of
           Http_post url p \<Rightarrow>
             if url = api @ js ''/figma/proxy''
             then (Suc now, snd (execute up (spec_of_payload (str_of (get_prop p (js ''method''))) p) now h))
             else if url = api @ js ''/figma/page''
             then (Suc now, snd (executePage no_pages up (spec_of_payload (js ''PAGE'') p) now h))
             else (Suc now, h)
         | Http_delete url \<Rightarrow>
             if url = api @ js ''/request-history'' then (Suc now, history_clear h) else (Suc now, h)
         | _ \<Rightarrow> (Suc now, h))"

text \<open>
  Modelled from the spec: the id that the route "Update saved request" of section 6 reads
  from the end of the URL.
\<close>

definition strip_prefix :: "jsstring \<Rightarrow> jsstring \<Rightarrow> jsstring option" where
  "strip_prefix pre x = (if take (length pre) x = pre then Some (drop (length pre) x) else None)"

text \<open>
  Modelled from the spec: the route "Update saved request" of section 6, applied to one
  HTTP call of the front end: a PUT of \<^verbatim>\<open>/saved-requests/<id>\<close> with a boolean
  \<^verbatim>\<open>is_favorite\<close> is \<open>patchFavorite\<close>; a failing patch and every other call leave the
  store as it is.
\<close>

definition serve_saved :: "jsstring \<Rightarrow> SavedRequest list \<Rightarrow> http_call \<Rightarrow> SavedRequest list" where
  "serve_saved api st call =
     (case call of
        Http_put url p \<Rightarrow>
          (case strip_prefix (api @ js ''/saved-requests/'') url of
             None \<Rightarrow> st
           | Some i \<Rightarrow>
               (case get_prop p (js ''is_favorite'') of
                  JBool b \<Rightarrow> (case patchFavorite i b st of Inl e \<Rightarrow> st | Inr st' \<Rightarrow> st')
                | _ \<Rightarrow> st))
      | _ \<Rightarrow> st)"

text \<open>
  Modelled from the spec: whether a call of the front end invoked its route on the
  backend. A call that axios resolves was answered by the route. Of a rejected call the
  front end cannot tell: the request may have been lost on the way, refused before the
  route, or served with its answer lost; that is the parameter \<open>reached\<close>.
\<close>

definition call_result :: "env \<Rightarrow> http_call \<Rightarrow> axios_result" where
  "call_result env c =
     (case c of
        Http_get url \<Rightarrow> axios_get env url
      | Http_post url p \<Rightarrow> axios_post env url p
      | Http_put url p \<Rightarrow> axios_put env url p
      | Http_delete url \<Rightarrow> axios_delete env url)"

text \<open>Modelled from the spec: see \<open>call_result\<close>.\<close>

definition served :: "env \<Rightarrow> (http_call \<Rightarrow> bool) \<Rightarrow> http_call \<Rightarrow> bool" where
  "served env reached c = (case call_result env c of Resolved d \<Rightarrow> True | Rejected e \<Rightarrow> reached c)"

text \<open>
  Modelled from the spec: the HistoryStore after the backend has handled, in their order,
  those calls of the front end that invoked it.
\<close>

definition backend_history ::
  "env \<Rightarrow> jsval \<Rightarrow> (jsstring \<Rightarrow> jsstring \<Rightarrow> upstream) \<Rightarrow> (http_call \<Rightarrow> bool)
     \<Rightarrow> nat \<times> HistoryEntry list \<Rightarrow> http_call list \<Rightarrow> HistoryEntry list" where
  "backend_history env no_pages up reached st calls =
     snd (foldl (serve_history (API env) no_pages up) st (filter (served env reached) calls))"

section \<open>Concrete states\<close>

text \<open>The initial state of lines 50-61, with empty logs.\<close>

definition initial_app :: app where
  "initial_app =
     \<lparr>figmaToken = [], showTokenDialog = False, method_sel = js ''GET'', endpoint = [],
      headers = [], body = [], response = JNull, loading = False,
      savedRequests = JArray [], history = JArray [], activeTab = js ''builder'',
      selectedCategory = js ''Files'', toasts = [], requests = []\<rparr>"

text \<open>
  Surroundings in which the backend answers every call: a POST with a success envelope
  of status 200, the other calls with an empty list or \<^verbatim>\<open>null\<close>.
\<close>

definition example_env :: env where
  "example_env =
     \<lparr>BACKEND_URL = js ''http://localhost:8001'',
      axios_get = (\<lambda>url. Resolved (JArray [])),
      axios_post = (\<lambda>url p. Resolved (JObject [(js ''error'', JBool False),
                                                (js ''status_code'', JNumber 200 0),
                                                (js ''data'', JNull)])),
      axios_put = (\<lambda>url p. Resolved JNull),
      axios_delete = (\<lambda>url. Resolved JNull),
      syntax_error_message = (\<lambda>b. js ''Unexpected end of JSON input'')\<rparr>"

text \<open>
  Surroundings in which every call is rejected with a network error that carries no
  response.
\<close>

definition offline_env :: env where
  "offline_env =
     \<lparr>BACKEND_URL = js ''http://localhost:8001'',
      axios_get = (\<lambda>url. Rejected \<lparr>err_message = js ''Network Error'', err_response = None\<rparr>),
      axios_post = (\<lambda>url p. Rejected \<lparr>err_message = js ''Network Error'', err_response = None\<rparr>),
      axios_put = (\<lambda>url p. Rejected \<lparr>err_message = js ''Network Error'', err_response = None\<rparr>),
      axios_delete = (\<lambda>url. Rejected \<lparr>err_message = js ''Network Error'', err_response = None\<rparr>),
      syntax_error_message = (\<lambda>b. js ''Unexpected end of JSON input'')\<rparr>"

text \<open>
  For the parameter \<open>reached\<close>: a network on which every rejected call had still
  reached the backend, and one on which no rejected call had.
\<close>

definition reliable_network :: "http_call \<Rightarrow> bool" where
  "reliable_network c = True"

definition no_network :: "http_call \<Rightarrow> bool" where
  "no_network c = False"

text \<open>An upstream API that answers every call with status 200 and an empty document.\<close>

definition example_upstream :: "jsstring \<Rightarrow> jsstring \<Rightarrow> upstream" where
  "example_upstream m ep = Answered 200 (JObject [])"

text \<open>An upstream API whose file has the three pages A, B and C.\<close>

definition three_pages_upstream :: "jsstring \<Rightarrow> jsstring \<Rightarrow> upstream" where
  "three_pages_upstream m ep =
     Answered 200
       (JObject [(js ''name'', JString (js ''Design'')),
                 (js ''document'',
                  JObject [(js ''children'',
                            JArray [JString (js ''A''), JString (js ''B''), JString (js ''C'')])])])"

definition example_spec :: RequestSpec where
  "example_spec =
     \<lparr>rs_method = js ''PAGE'', rs_endpoint = js ''/files/ABC123'', rs_headers = JObject [],
      rs_body = JNull\<rparr>"

definition example_saved :: SavedRequest where
  "example_saved =
     \<lparr>sr_id = js ''r1'', sr_name = js ''Me'', sr_method = js ''GET'', sr_endpoint = js ''/me'',
      sr_headers = JObject [], sr_body = [], sr_category = js ''Users'', is_favorite = False,
      created_at = 0\<rparr>"

text \<open>A backend that answers the POST with the envelope of an upstream 404.\<close>

definition not_found_env :: env where
  "not_found_env =
     example_env\<lparr>axios_post :=
       (\<lambda>url p. Resolved (JObject [(js ''error'', JBool False),
                                    (js ''status_code'', JNumber 404 0),
                                    (js ''data'', JObject [(js ''err'', JString (js ''Not found''))])]))\<rparr>"

text \<open>A backend that rejects the POST with status 500 and a \<^verbatim>\<open>detail\<close>.\<close>

definition detail_env :: env where
  "detail_env =
     example_env\<lparr>axios_post :=
       (\<lambda>url p. Rejected
          \<lparr>err_message = js ''Request failed with status code 500'',
           err_response = Some (JObject [(js ''detail'', JString (js ''Invalid token''))])\<rparr>)\<rparr>"

text \<open>A token, an endpoint, and user headers that name both fixed headers.\<close>

definition collision_app :: app where
  \<open>collision_app =
     initial_app\<lparr>figmaToken := js ''tok'', endpoint := js ''/me'',
                 headers := js ''{"X-Figma-Token": "evil", "Content-Type": "text/plain"}''\<rparr>\<close>

text \<open>The pseudo-method PAGE on a file endpoint.\<close>

definition page_app :: app where
  "page_app =
     initial_app\<lparr>figmaToken := js ''tok'', endpoint := js ''/files/ABC123'', method_sel := js ''PAGE''\<rparr>"

text \<open>A POST whose body is not JSON.\<close>

definition bad_body_app :: app where
  "bad_body_app =
     initial_app\<lparr>figmaToken := js ''tok'', method_sel := js ''POST'',
                 endpoint := js ''/files/ABC123/comments'', body := js ''{''\<rparr>"

section \<open>Evaluation rules and lemmas about the model\<close>

lemmas json_eval =
  JSON_parse_def js_def is_json_ws_def is_word_char_def is_digit_def emit_def word_value_def
  json_number_def json_exponent_def digits_val_def hex_val_def unescape_def

lemmas headers_eval =
  parseHeaders_def parseHeaders_fallback_def parseHeaders_line_def set_prop_def trim_def
  is_js_space_def

lemmas request_eval =
  executeRequest_def validate_def reject_def body_value_def apiEndpoint_def API_def payload_def
  requestHeaders_def spread_def loadHistory_def request_failed_def error_message_def
  error_detail_def

lemma map_of_foldl_update:
  "map_of (foldl (\<lambda>acc (k, x). AList.update k x acc) kvs ps) = map_of kvs ++ map_of (rev ps)"
proof (induction ps arbitrary: kvs)
  case Nil
  then show ?case by simp
next
  case (Cons p ps)
  obtain k x where p: "p = (k, x)" by (cases p)
  have "map_of (foldl (\<lambda>acc (k, x). AList.update k x acc) kvs (p # ps))
        = map_of (AList.update k x kvs) ++ map_of (rev ps)"
    by (simp add: Cons.IH p)
  also have "\<dots> = (map_of kvs)(k \<mapsto> x) ++ map_of (rev ps)"
    by (simp only: update_conv')
  also have "\<dots> = map_of kvs ++ map_of (rev (p # ps))"
    by (rule ext) (simp add: p map_add_def split: option.splits)
  finally show ?case .
qed

lemma header_names_differ: "js ''X-Figma-Token'' \<noteq> js ''Content-Type''"
  by (simp add: js_def)

lemma executeRequest_rejected:
  "validate (figmaToken s) (endpoint s) = Some err \<Longrightarrow> executeRequest env s = reject s err"
  by (simp add: executeRequest_def)

lemma executeRequest_body_error:
  "validate (figmaToken s) (endpoint s) = None \<Longrightarrow> body_value (body s) = None \<Longrightarrow>
   executeRequest env s =
     (request_failed (s\<lparr>loading := True\<rparr>)
        \<lparr>err_message = syntax_error_message env (body s), err_response = None\<rparr>)\<lparr>loading := False\<rparr>"
  by (simp add: executeRequest_def)

lemma executeRequest_post_rejected:
  "validate (figmaToken s) (endpoint s) = None \<Longrightarrow> body_value (body s) = Some b \<Longrightarrow>
   axios_post env (apiEndpoint env (method_sel s)) (payload s b) = Rejected e \<Longrightarrow>
   executeRequest env s =
     (request_failed
        (s\<lparr>loading := True,
           requests := requests s @ [Http_post (apiEndpoint env (method_sel s)) (payload s b)]\<rparr>) e)
       \<lparr>loading := False\<rparr>"
  by (simp add: executeRequest_def Let_def)

lemma executeRequest_post_resolved:
  "validate (figmaToken s) (endpoint s) = None \<Longrightarrow> body_value (body s) = Some b \<Longrightarrow>
   axios_post env (apiEndpoint env (method_sel s)) (payload s b) = Resolved d \<Longrightarrow>
   executeRequest env s =
     (loadHistory env
        (s\<lparr>loading := True,
           requests := requests s @ [Http_post (apiEndpoint env (method_sel s)) (payload s b)],
           response := d,
           toasts := toasts s @ [Toast_success ''Request executed successfully'']\<rparr>))
       \<lparr>loading := False\<rparr>"
  by (simp add: executeRequest_def Let_def)

lemma loadHistory_fields:
  "response (loadHistory env s) = response s"
  "toasts (loadHistory env s) = toasts s"
  "requests (loadHistory env s) = requests s @ [Http_get (API env @ js ''/request-history'')]"
  by (simp_all add: loadHistory_def Let_def split: axios_result.splits)

text \<open>The HTTP calls of one run of \<open>executeRequest\<close>.\<close>

lemma executeRequest_requests:
  "requests (executeRequest env s) = requests s @
     (case validate (figmaToken s) (endpoint s) of
        Some err \<Rightarrow> []
      | None \<Rightarrow>
          (case body_value (body s) of
             None \<Rightarrow> []
           | Some b \<Rightarrow>
               Http_post (apiEndpoint env (method_sel s)) (payload s b) #
               (case axios_post env (apiEndpoint env (method_sel s)) (payload s b) of
                  Resolved d \<Rightarrow> [Http_get (API env @ js ''/request-history'')]
                | Rejected e \<Rightarrow> [])))"
proof (cases "validate (figmaToken s) (endpoint s)")
  case (Some err)
  then show ?thesis by (simp add: executeRequest_rejected reject_def)
next
  case None
  show ?thesis
  proof (cases "body_value (body s)")
    case None': None
    show ?thesis
      by (simp add: executeRequest_body_error [OF None None'] None None' request_failed_def)
  next
    case (Some b)
    show ?thesis
    proof (cases "axios_post env (apiEndpoint env (method_sel s)) (payload s b)")
      case (Resolved d)
      show ?thesis
        by (simp add: executeRequest_post_resolved [OF None Some Resolved] None Some Resolved
            loadHistory_fields)
    next
      case (Rejected e)
      show ?thesis
        by (simp add: executeRequest_post_rejected [OF None Some Rejected] None Some Rejected
            request_failed_def)
    qed
  qed
qed

lemma bad_body_app_valid: "validate (figmaToken bad_body_app) (endpoint bad_body_app) = None"
  by (simp add: bad_body_app_def initial_app_def validate_def js_def)

lemma bad_body_app_body: "body_value (body bad_body_app) = None"
  by (simp add: bad_body_app_def initial_app_def body_value_def json_eval)

lemma page_app_valid: "validate (figmaToken page_app) (endpoint page_app) = None"
  by (simp add: page_app_def initial_app_def validate_def js_def)

lemma page_app_body: "body_value (body page_app) = Some JNull"
  by (simp add: page_app_def initial_app_def body_value_def)

text \<open>What holds of the line scan: the example of the specification, and the empty input.\<close>

lemma parseHeaders_spec_example:
  "parseHeaders (js ''X-Foo: bar'' @ [10] @ js ''badline'' @ [10] @ js ''Y-Baz:qux'')
     = JObject [(js ''X-Foo'', JString (js ''bar'')), (js ''Y-Baz'', JString (js ''qux''))]"
  by (simp add: headers_eval json_eval)

lemma parseHeaders_empty: "parseHeaders [] = JObject []"
  by (simp add: parseHeaders_def)

lemma parseHeaders_uses_fallback:
  "hs \<noteq> [] \<Longrightarrow> JSON_parse hs = None \<Longrightarrow> parseHeaders hs = parseHeaders_fallback hs"
  by (simp add: parseHeaders_def)

text \<open>The store of saved requests.\<close>

lemma patchFavorite_same_value:
  "find (\<lambda>x. sr_id x = i) st = Some r \<Longrightarrow> patchFavorite i (is_favorite r) st = Inr st"
  by (induction st) (auto split: if_splits)

lemma patchFavorite_found:
  "find (\<lambda>x. sr_id x = i) st = Some r \<Longrightarrow>
   \<exists>st1. patchFavorite i b st = Inr st1
     \<and> find (\<lambda>x. sr_id x = i) st1 = Some (r\<lparr>is_favorite := b\<rparr>)
     \<and> patchFavorite i b' st1 = patchFavorite i b' st"
  by (induction st) (auto split: if_splits)

lemma patchFavorite_idempotent:
  "patchFavorite i b st = Inr st1 \<Longrightarrow> patchFavorite i b st1 = Inr st1"
  by (induction st arbitrary: st1) (auto split: if_splits sum.splits)

lemma patchFavorite_other_fields:
  "patchFavorite i b st = Inr st1 \<Longrightarrow>
   map (\<lambda>x. x\<lparr>is_favorite := c\<rparr>) st1 = map (\<lambda>x. x\<lparr>is_favorite := c\<rparr>) st"
  by (induction st arbitrary: st1) (auto split: if_splits sum.splits)

lemma patchFavorite_missing:
  "find (\<lambda>x. sr_id x = i) st = None \<Longrightarrow> patchFavorite i b st = Inl NotFound"
  by (induction st) (auto split: if_splits)

lemma serve_saved_put:
  "serve_saved (API env) st (Http_put (favorite_url env i) (favorite_patch v))
     = (case patchFavorite i (\<not> truthy v) st of Inl e \<Rightarrow> st | Inr st1 \<Rightarrow> st1)"
  by (simp add: serve_saved_def favorite_url_def favorite_patch_def strip_prefix_def)

lemma toggleFavorite_requests:
  "requests (toggleFavorite env i v s) = requests s @
     Http_put (favorite_url env i) (favorite_patch v) #
     (case axios_put env (favorite_url env i) (favorite_patch v) of
        Resolved d \<Rightarrow> [Http_get (API env @ js ''/saved-requests'')]
      | Rejected e \<Rightarrow> [])"
  by (simp add: toggleFavorite_def loadSavedRequests_def Let_def split: axios_result.splits)

text \<open>The history store.\<close>

lemma execute_history:
  "snd (execute up spec now h)
     = h @ [history_entry spec (up (rs_method spec) (rs_endpoint spec)) now]"
  by (simp add: execute_def history_append_def Let_def)

lemma executePage_history:
  "snd (executePage no_pages up spec now h)
     = h @ [history_entry spec (up (js ''GET'') (rs_endpoint spec)) now]"
  by (simp add: executePage_def history_append_def Let_def)

lemma serve_history_post:
  "length (snd (serve_history (API env) no_pages up (now, h) (Http_post (apiEndpoint env m) p)))
     = length h + 1"
  by (simp add: serve_history_def apiEndpoint_def execute_history executePage_history)

lemma serve_history_get:
  "snd (serve_history api no_pages up st (Http_get url)) = snd st"
  by (simp add: serve_history_def)

lemma served_post:
  "served env reached (Http_post url p)
     = (case axios_post env url p of Resolved d \<Rightarrow> True | Rejected e \<Rightarrow> reached (Http_post url p))"
  by (simp add: served_def call_result_def)

lemma history_after_execution:
  "backend_history env no_pages up reached (now, h)
     (drop (length (requests s)) (requests (executeRequest env s)))
     = (case validate (figmaToken s) (endpoint s) of
          Some err \<Rightarrow> h
        | None \<Rightarrow>
            (case body_value (body s) of
               None \<Rightarrow> h
             | Some b \<Rightarrow>
                 if served env reached (Http_post (apiEndpoint env (method_sel s)) (payload s b))
                 then snd (serve_history (API env) no_pages up (now, h)
                             (Http_post (apiEndpoint env (method_sel s)) (payload s b)))
                 else h))"
  by (simp add: backend_history_def executeRequest_requests serve_history_get
      split: option.splits axios_result.splits)

section \<open>The claims\<close>

subsection \<open>C1: the merged headers\<close>

text \<open>
  C1, as the code has it. The object literal of lines 116-120 spreads the user headers
  after the two fixed ones, so on a key collision the user's value is the one sent: for
  every key, the headers of the outbound payload carry the value of the parsed user
  headers when they define the key (the last definition, if there are several), and
  otherwise the token under X-Figma-Token, application/json under Content-Type, and
  nothing under any other key.
\<close>

theorem user_header_wins_on_collision:
  "get_prop (get_prop (payload s b) (js ''headers'')) k =
     (case map_of (rev (own_props (parseHeaders (headers s)))) k of
        Some v \<Rightarrow> v
      | None \<Rightarrow>
          if k = js ''X-Figma-Token'' then JString (figmaToken s)
          else if k = js ''Content-Type'' then JString (js ''application/json'')
          else JUndefined)"
proof -
  have "get_prop (get_prop (payload s b) (js ''headers'')) k
        = get_prop (JObject (requestHeaders (figmaToken s) (headers s))) k"
    by (simp add: payload_def js_def)
  also have "\<dots> =
     (case (map_of [(js ''X-Figma-Token'', JString (figmaToken s)),
                    (js ''Content-Type'', JString (js ''application/json''))]
            ++ map_of (rev (own_props (parseHeaders (headers s))))) k of
        Some v \<Rightarrow> v | None \<Rightarrow> JUndefined)"
    by (simp only: get_prop.simps requestHeaders_def spread_def map_of_foldl_update)
  also have "\<dots> =
     (case map_of (rev (own_props (parseHeaders (headers s)))) k of
        Some v \<Rightarrow> v
      | None \<Rightarrow>
          if k = js ''X-Figma-Token'' then JString (figmaToken s)
          else if k = js ''Content-Type'' then JString (js ''application/json'')
          else JUndefined)"
    using header_names_differ by (simp add: map_add_def split: option.splits)
  finally show ?thesis .
qed

theorem user_header_wins_on_collision_witness:
  "get_prop (get_prop (payload collision_app JNull) (js ''headers'')) (js ''X-Figma-Token'')
     = JString (js ''evil'')"
  using user_header_wins_on_collision [of collision_app JNull "js ''X-Figma-Token''"]
  by (simp add: collision_app_def initial_app_def headers_eval json_eval)

text \<open>
  The claim as stated fails: with the token \<^verbatim>\<open>tok\<close> and user headers that name
  X-Figma-Token and Content-Type, the POST that \<open>executeRequest\<close> issues carries the
  user's values, not the fixed ones.
\<close>

theorem fixed_header_loses_counterexample:
  "hd (requests (executeRequest example_env collision_app))
     = Http_post (js ''http://localhost:8001/api/figma/proxy'') (payload collision_app JNull)
   \<and> get_prop (get_prop (payload collision_app JNull) (js ''headers'')) (js ''X-Figma-Token'')
       = JString (js ''evil'')
   \<and> get_prop (get_prop (payload collision_app JNull) (js ''headers'')) (js ''X-Figma-Token'')
       \<noteq> JString (figmaToken collision_app)
   \<and> get_prop (get_prop (payload collision_app JNull) (js ''headers'')) (js ''Content-Type'')
       \<noteq> JString (js ''application/json'')"
  by (simp add: collision_app_def initial_app_def example_env_def request_eval headers_eval json_eval)

subsection \<open>C2: header input that is JSON\<close>

text \<open>
  C2, as the code has it. Whenever \<^verbatim>\<open>JSON.parse\<close> succeeds on the header input,
  \<open>parseHeaders\<close> returns the parsed value itself, whatever its type: the
  pairs of an object are unchanged and no value is coerced to a string, and a number, a
  string or an array is returned as it is; the line scan runs only when the parse throws.
\<close>

theorem parseHeaders_returns_parsed_value:
  "(JSON_parse hs = Some v \<longrightarrow> parseHeaders hs = v)
   \<and> (hs \<noteq> [] \<and> JSON_parse hs = None \<longrightarrow> parseHeaders hs = parseHeaders_fallback hs)"
proof (intro conjI impI)
  assume parsed: "JSON_parse hs = Some v"
  have "JSON_parse [] = None"
    by (simp add: JSON_parse_def)
  with parsed have "hs \<noteq> []"
    by auto
  with parsed show "parseHeaders hs = v"
    by (simp add: parseHeaders_def)
next
  assume "hs \<noteq> [] \<and> JSON_parse hs = None"
  then show "parseHeaders hs = parseHeaders_fallback hs"
    by (simp add: parseHeaders_def)
qed

theorem parseHeaders_returns_parsed_value_witness:
  \<open>JSON_parse (js ''{"Retries": 3}'') = Some (JObject [(js ''Retries'', JNumber 3 0)])
   \<and> parseHeaders (js ''{"Retries": 3}'') = JObject [(js ''Retries'', JNumber 3 0)]
   \<and> JSON_parse (js ''X-Foo: bar'') = None
   \<and> parseHeaders (js ''X-Foo: bar'') = parseHeaders_fallback (js ''X-Foo: bar'')\<close>
proof -
  have p: \<open>JSON_parse (js ''{"Retries": 3}'') = Some (JObject [(js ''Retries'', JNumber 3 0)])\<close>
    by (simp add: json_eval)
  have q: "JSON_parse (js ''X-Foo: bar'') = None"
    by (simp add: json_eval)
  have ne: "js ''X-Foo: bar'' \<noteq> []"
    by (simp add: js_def)
  have one: \<open>parseHeaders (js ''{"Retries": 3}'') = JObject [(js ''Retries'', JNumber 3 0)]\<close>
    using parseHeaders_returns_parsed_value
      [of \<open>js ''{"Retries": 3}''\<close> "JObject [(js ''Retries'', JNumber 3 0)]"] p
    by blast
  have two: "parseHeaders (js ''X-Foo: bar'') = parseHeaders_fallback (js ''X-Foo: bar'')"
    using parseHeaders_returns_parsed_value [of "js ''X-Foo: bar''" JNull] q ne
    by blast
  show ?thesis
    by (intro conjI) (rule p, rule one, rule q, rule two)
qed

text \<open>
  The claim as stated fails: the input \<^verbatim>\<open>5\<close> parses as JSON to a number, which is
  returned as it is; the line scan would have given the empty mapping.
\<close>

theorem non_object_returned_verbatim_counterexample:
  "JSON_parse (js ''5'') = Some (JNumber 5 0)
   \<and> parseHeaders (js ''5'') = JNumber 5 0
   \<and> parseHeaders_fallback (js ''5'') = JObject []
   \<and> parseHeaders (js ''5'') \<noteq> parseHeaders_fallback (js ''5'')"
  by (simp add: headers_eval json_eval)

subsection \<open>C3: header input that is not JSON\<close>

text \<open>
  C3 says that a line is split on its first colon only, so that a value may contain
  colons, and that a pair is added exactly when the trimmed key and the trimmed value
  are not empty. The code splits at every colon and keeps the first two pieces, and it
  tests the pieces before trimming them: on \<^verbatim>\<open>Referer: http://example.com\<close> the value
  is cut to \<^verbatim>\<open>http\<close>, and the line of a space, a colon and a space adds the empty key
  with the empty value.
\<close>

theorem parseHeaders_cuts_value_at_second_colon:
  "JSON_parse (js ''Referer: http://example.com'') = None
   \<and> parseHeaders (js ''Referer: http://example.com'')
       = JObject [(js ''Referer'', JString (js ''http''))]
   \<and> parseHeaders (js ''Referer: http://example.com'')
       \<noteq> JObject [(js ''Referer'', JString (js ''http://example.com''))]
   \<and> JSON_parse (js '' : '') = None
   \<and> parseHeaders (js '' : '') = JObject [([], JString [])]"
  by (simp add: headers_eval json_eval)

subsection \<open>C4: validation failures are terminal\<close>

text \<open>
  C4. Validation fails with MissingCredential when no token is configured, fails when
  the endpoint is empty (with MissingEndpoint once a token is configured) and fails when
  the endpoint contains a colon (with UnresolvedPlaceholder once a token is configured).
  Every failure is terminal: \<open>executeRequest\<close> issues no HTTP call, leaves the history,
  the response and the loading flag as they were, and raises the one notification of the
  failure. With a token, \<^verbatim>\<open>/files/:file_key\<close> fails with UnresolvedPlaceholder and
  \<^verbatim>\<open>/files/ABC123\<close> passes.
\<close>

theorem validation_failure_is_terminal:
  "(figmaToken s = [] \<longrightarrow> validate (figmaToken s) (endpoint s) = Some MissingCredential)
   \<and> (endpoint s = [] \<longrightarrow>
        validate (figmaToken s) (endpoint s) \<noteq> None
        \<and> (figmaToken s \<noteq> [] \<longrightarrow> validate (figmaToken s) (endpoint s) = Some MissingEndpoint))
   \<and> (58 \<in> set (endpoint s) \<longrightarrow>
        validate (figmaToken s) (endpoint s) \<noteq> None
        \<and> (figmaToken s \<noteq> [] \<longrightarrow> validate (figmaToken s) (endpoint s) = Some UnresolvedPlaceholder))
   \<and> (validate (figmaToken s) (endpoint s) = Some err \<longrightarrow>
        requests (executeRequest env s) = requests s
        \<and> history (executeRequest env s) = history s
        \<and> response (executeRequest env s) = response s
        \<and> loading (executeRequest env s) = loading s
        \<and> toasts (executeRequest env s) = toasts s @ [Toast_error (validation_message err)])
   \<and> (token \<noteq> [] \<longrightarrow>
        validate token (js ''/files/:file_key'') = Some UnresolvedPlaceholder
        \<and> validate token (js ''/files/ABC123'') = None)"
proof -
  have a: "validate (figmaToken s) (endpoint s) = Some err \<Longrightarrow>
        requests (executeRequest env s) = requests s
        \<and> history (executeRequest env s) = history s
        \<and> response (executeRequest env s) = response s
        \<and> loading (executeRequest env s) = loading s
        \<and> toasts (executeRequest env s) = toasts s @ [Toast_error (validation_message err)]"
    by (simp add: executeRequest_rejected reject_def)
  have b: "(figmaToken s = [] \<longrightarrow> validate (figmaToken s) (endpoint s) = Some MissingCredential)
   \<and> (endpoint s = [] \<longrightarrow>
        validate (figmaToken s) (endpoint s) \<noteq> None
        \<and> (figmaToken s \<noteq> [] \<longrightarrow> validate (figmaToken s) (endpoint s) = Some MissingEndpoint))
   \<and> (58 \<in> set (endpoint s) \<longrightarrow>
        validate (figmaToken s) (endpoint s) \<noteq> None
        \<and> (figmaToken s \<noteq> [] \<longrightarrow> validate (figmaToken s) (endpoint s) = Some UnresolvedPlaceholder))"
    by (auto simp add: validate_def)
  have c: "token \<noteq> [] \<Longrightarrow>
        validate token (js ''/files/:file_key'') = Some UnresolvedPlaceholder
        \<and> validate token (js ''/files/ABC123'') = None"
    by (simp add: validate_def js_def)
  from a b c show ?thesis by blast
qed

theorem validation_failure_is_terminal_witness:
  "validate [] [] = Some MissingCredential
   \<and> validate (js ''tok'') [] = Some MissingEndpoint
   \<and> validate (js ''tok'') (js ''/files/:file_key'') = Some UnresolvedPlaceholder
   \<and> validate (js ''tok'') (js ''/files/ABC123'') = None
   \<and> requests (executeRequest example_env
        (initial_app\<lparr>figmaToken := js ''tok'', endpoint := js ''/files/:file_key''\<rparr>)) = []
   \<and> history (executeRequest example_env
        (initial_app\<lparr>figmaToken := js ''tok'', endpoint := js ''/files/:file_key''\<rparr>)) = JArray []
   \<and> toasts (executeRequest example_env
        (initial_app\<lparr>figmaToken := js ''tok'', endpoint := js ''/files/:file_key''\<rparr>))
       = [Toast_error ''Please replace placeholder parameters (e.g., :file_key) with actual values'']"
  using
    validation_failure_is_terminal [of initial_app UnresolvedPlaceholder example_env "js ''tok''"]
    validation_failure_is_terminal
      [of "initial_app\<lparr>figmaToken := js ''tok''\<rparr>" UnresolvedPlaceholder example_env "js ''tok''"]
    validation_failure_is_terminal
      [of "initial_app\<lparr>figmaToken := js ''tok'', endpoint := js ''/files/:file_key''\<rparr>"
          UnresolvedPlaceholder example_env "js ''tok''"]
  by (simp add: initial_app_def js_def)

subsection \<open>C5: the pseudo-method PAGE\<close>

text \<open>
  C5. When the selected method is PAGE, every POST that \<open>executeRequest\<close> issues goes
  to the page route and not to the proxy route, names GET as its method and carries the
  endpoint unchanged; and when validation passes and the body is absent or parses, that
  POST is issued.
\<close>

theorem page_is_sent_as_get:
  assumes "method_sel s = js ''PAGE''"
  shows
    "(\<forall>url p. Http_post url p \<in> set (drop (length (requests s)) (requests (executeRequest env s))) \<longrightarrow>
        url = API env @ js ''/figma/page''
        \<and> url \<noteq> API env @ js ''/figma/proxy''
        \<and> get_prop p (js ''method'') = JString (js ''GET'')
        \<and> get_prop p (js ''endpoint'') = JString (endpoint s))
     \<and> (validate (figmaToken s) (endpoint s) = None \<and> body_value (body s) = Some b \<longrightarrow>
          hd (drop (length (requests s)) (requests (executeRequest env s)))
            = Http_post (API env @ js ''/figma/page'') (payload s b))"
proof -
  have url: "apiEndpoint env (method_sel s) = API env @ js ''/figma/page''"
    using assms by (simp add: apiEndpoint_def)
  have differ: "API env @ js ''/figma/page'' \<noteq> API env @ js ''/figma/proxy''"
    by (simp add: js_def)
  have m: "get_prop (payload s c) (js ''method'') = JString (js ''GET'')" for c
    using assms by (simp add: payload_def)
  have e: "get_prop (payload s c) (js ''endpoint'') = JString (endpoint s)" for c
    by (simp add: payload_def js_def)
  show ?thesis
    using differ m e
    by (auto simp add: executeRequest_requests url split: option.splits axios_result.splits)
qed

theorem page_is_sent_as_get_witness:
  "method_sel page_app = js ''PAGE''
   \<and> validate (figmaToken page_app) (endpoint page_app) = None
   \<and> body_value (body page_app) = Some JNull
   \<and> hd (requests (executeRequest example_env page_app))
       = Http_post (js ''http://localhost:8001/api/figma/page'') (payload page_app JNull)
   \<and> get_prop (payload page_app JNull) (js ''method'') = JString (js ''GET'')
   \<and> get_prop (payload page_app JNull) (js ''endpoint'') = JString (js ''/files/ABC123'')"
  using page_is_sent_as_get [of page_app example_env JNull]
  by (simp add: page_app_def initial_app_def example_env_def validate_def body_value_def API_def
      payload_def js_def)

subsection \<open>C6: the first page\<close>

text \<open>
  C6, on the page extractor as the specification describes it. When the upstream
  answers and the document has children, the envelope carries the upstream status and,
  as its data, exactly the first child; when the document has no children the result is
  still a success envelope, whose data is the "no pages" indicator. The status code is
  the one the proxy executor gives for the same GET, and the children A, B, C yield A.
\<close>

theorem page_extractor_returns_first_child:
  "(up (js ''GET'') (rs_endpoint spec) = Answered st doc \<and> children_of doc = c # cs \<longrightarrow>
      fst (executePage no_pages up spec now h) = Success st c)
   \<and> (up (js ''GET'') (rs_endpoint spec) = Answered st doc \<and> children_of doc = [] \<longrightarrow>
      fst (executePage no_pages up spec now h) = Success st no_pages)
   \<and> (up (js ''GET'') (rs_endpoint spec) = Answered st doc \<longrightarrow>
      \<not> is_error (fst (executePage no_pages up spec now h))
      \<and> status_code (fst (executePage no_pages up spec now h))
          = status_code (fst (execute up (spec\<lparr>rs_method := js ''GET''\<rparr>) now h)))
   \<and> first_page no_pages
        (JObject [(js ''document'', JObject [(js ''children'', JArray [A, B, C])])]) = A"
  by (simp add: executePage_def execute_def first_page_def children_of_def is_error_def js_def)

theorem page_extractor_returns_first_child_witness:
  "fst (executePage (JString (js ''no pages'')) three_pages_upstream example_spec 0 [])
     = Success 200 (JString (js ''A''))
   \<and> fst (executePage (JString (js ''no pages'')) example_upstream example_spec 0 [])
     = Success 200 (JString (js ''no pages''))
   \<and> \<not> is_error (fst (executePage (JString (js ''no pages'')) example_upstream example_spec 0 []))"
proof -
  have up3: "three_pages_upstream (js ''GET'') (rs_endpoint example_spec)
     = Answered 200
         (JObject [(js ''name'', JString (js ''Design'')),
                   (js ''document'',
                    JObject [(js ''children'',
                              JArray [JString (js ''A''), JString (js ''B''), JString (js ''C'')])])])"
    by (simp add: three_pages_upstream_def)
  have ch3: "children_of
         (JObject [(js ''name'', JString (js ''Design'')),
                   (js ''document'',
                    JObject [(js ''children'',
                              JArray [JString (js ''A''), JString (js ''B''), JString (js ''C'')])])])
     = [JString (js ''A''), JString (js ''B''), JString (js ''C'')]"
    by (simp add: children_of_def js_def)
  have up0: "example_upstream (js ''GET'') (rs_endpoint example_spec) = Answered 200 (JObject [])"
    by (simp add: example_upstream_def)
  have ch0: "children_of (JObject []) = []"
    by (simp add: children_of_def)
  have one: "fst (executePage (JString (js ''no pages'')) three_pages_upstream example_spec 0 [])
     = Success 200 (JString (js ''A''))"
    using page_extractor_returns_first_child
      [where up = three_pages_upstream and spec = example_spec and st = 200
         and doc = "JObject [(js ''name'', JString (js ''Design'')),
                   (js ''document'',
                    JObject [(js ''children'',
                              JArray [JString (js ''A''), JString (js ''B''), JString (js ''C'')])])]"
         and c = "JString (js ''A'')" and cs = "[JString (js ''B''), JString (js ''C'')]"
         and no_pages = "JString (js ''no pages'')" and now = 0 and h = "[]"
         and A = JNull and B = JNull and C = JNull] up3 ch3
    by simp
  have two: "fst (executePage (JString (js ''no pages'')) example_upstream example_spec 0 [])
     = Success 200 (JString (js ''no pages''))
     \<and> \<not> is_error (fst (executePage (JString (js ''no pages'')) example_upstream example_spec 0 []))"
    using page_extractor_returns_first_child
      [where up = example_upstream and spec = example_spec and st = 200 and doc = "JObject []"
         and no_pages = "JString (js ''no pages'')" and now = 0 and h = "[]"
         and c = JNull and cs = "[]" and A = JNull and B = JNull and C = JNull] up0 ch0
    by (simp add: is_error_def)
  show ?thesis
    by (intro conjI) (rule one, rule two [THEN conjunct1], rule two [THEN conjunct2])
qed

subsection \<open>C7: local failures\<close>

text \<open>
  C7. Once validation has passed, every failure inside \<open>executeRequest\<close> ends in the
  response \<^verbatim>\<open>{error: true, message}\<close> with the loading flag cleared: a request body
  that is not JSON gives the message of the syntax error; a rejected POST gives the
  \<^verbatim>\<open>detail\<close> of the response when there is a truthy one and the message of the error
  otherwise, and that message is not empty when the message of the error is not. A reply
  of the backend, such as the envelope \<^verbatim>\<open>{error: false, status_code, data}\<close> of an
  upstream status that is not 2xx, is not a failure: it becomes the response as it is.
\<close>

theorem local_failure_gives_error_envelope:
  assumes "validate (figmaToken s) (endpoint s) = None"
  shows
    "(body_value (body s) = None \<longrightarrow>
        response (executeRequest env s)
          = JObject [(js ''error'', JBool True),
                     (js ''message'', JString (syntax_error_message env (body s)))]
        \<and> loading (executeRequest env s) = False)
     \<and> (body_value (body s) = Some b
          \<and> axios_post env (apiEndpoint env (method_sel s)) (payload s b) = Rejected e \<longrightarrow>
          response (executeRequest env s)
            = JObject [(js ''error'', JBool True), (js ''message'', error_message e)]
          \<and> loading (executeRequest env s) = False
          \<and> (truthy (error_detail e) \<longrightarrow> error_message e = error_detail e)
          \<and> (\<not> truthy (error_detail e) \<longrightarrow> error_message e = JString (err_message e))
          \<and> (err_response e = None \<longrightarrow> error_message e = JString (err_message e))
          \<and> (err_message e \<noteq> [] \<longrightarrow> truthy (error_message e)))
     \<and> (body_value (body s) = Some b
          \<and> axios_post env (apiEndpoint env (method_sel s)) (payload s b) = Resolved d \<longrightarrow>
          response (executeRequest env s) = d
          \<and> loading (executeRequest env s) = False
          \<and> toasts (executeRequest env s) = toasts s @ [Toast_success ''Request executed successfully''])"
proof -
  have a: "body_value (body s) = None \<Longrightarrow>
        response (executeRequest env s)
          = JObject [(js ''error'', JBool True),
                     (js ''message'', JString (syntax_error_message env (body s)))]
        \<and> loading (executeRequest env s) = False"
    by (simp add: executeRequest_body_error [OF assms] request_failed_def error_message_def
        error_detail_def)
  have b: "body_value (body s) = Some b \<Longrightarrow>
          axios_post env (apiEndpoint env (method_sel s)) (payload s b) = Rejected e \<Longrightarrow>
          response (executeRequest env s)
            = JObject [(js ''error'', JBool True), (js ''message'', error_message e)]
          \<and> loading (executeRequest env s) = False"
    by (simp add: executeRequest_post_rejected [OF assms] request_failed_def)
  have c: "(truthy (error_detail e) \<longrightarrow> error_message e = error_detail e)
          \<and> (\<not> truthy (error_detail e) \<longrightarrow> error_message e = JString (err_message e))
          \<and> (err_response e = None \<longrightarrow> error_message e = JString (err_message e))
          \<and> (err_message e \<noteq> [] \<longrightarrow> truthy (error_message e))"
    by (simp add: error_message_def error_detail_def)
  have d: "body_value (body s) = Some b \<Longrightarrow>
          axios_post env (apiEndpoint env (method_sel s)) (payload s b) = Resolved d \<Longrightarrow>
          response (executeRequest env s) = d
          \<and> loading (executeRequest env s) = False
          \<and> toasts (executeRequest env s) = toasts s @ [Toast_success ''Request executed successfully'']"
    by (simp add: executeRequest_post_resolved [OF assms] loadHistory_fields)
  from a b c d show ?thesis by blast
qed

theorem local_failure_gives_error_envelope_witness:
  "response (executeRequest example_env bad_body_app)
     = JObject [(js ''error'', JBool True),
                (js ''message'', JString (js ''Unexpected end of JSON input''))]
   \<and> response (executeRequest offline_env page_app)
     = JObject [(js ''error'', JBool True), (js ''message'', JString (js ''Network Error''))]
   \<and> response (executeRequest detail_env page_app)
     = JObject [(js ''error'', JBool True), (js ''message'', JString (js ''Invalid token''))]
   \<and> response (executeRequest not_found_env page_app)
     = JObject [(js ''error'', JBool False), (js ''status_code'', JNumber 404 0),
                (js ''data'', JObject [(js ''err'', JString (js ''Not found''))])]"
proof -
  have one: "response (executeRequest example_env bad_body_app)
     = JObject [(js ''error'', JBool True),
                (js ''message'', JString (js ''Unexpected end of JSON input''))]"
    using local_failure_gives_error_envelope [OF bad_body_app_valid, of example_env JNull]
      bad_body_app_body
    by (simp add: example_env_def)
  have two: "response (executeRequest offline_env page_app)
     = JObject [(js ''error'', JBool True), (js ''message'', JString (js ''Network Error''))]"
    using local_failure_gives_error_envelope
      [OF page_app_valid, of offline_env JNull
        "\<lparr>err_message = js ''Network Error'', err_response = None\<rparr>"]
      page_app_body
    by (simp add: offline_env_def error_message_def error_detail_def)
  have three: "response (executeRequest detail_env page_app)
     = JObject [(js ''error'', JBool True), (js ''message'', JString (js ''Invalid token''))]"
    using local_failure_gives_error_envelope
      [OF page_app_valid, of detail_env JNull
        "\<lparr>err_message = js ''Request failed with status code 500'',
          err_response = Some (JObject [(js ''detail'', JString (js ''Invalid token''))])\<rparr>"]
      page_app_body
    by (simp add: detail_env_def example_env_def error_message_def error_detail_def js_def)
  have four: "response (executeRequest not_found_env page_app)
     = JObject [(js ''error'', JBool False), (js ''status_code'', JNumber 404 0),
                (js ''data'', JObject [(js ''err'', JString (js ''Not found''))])]"
    using local_failure_gives_error_envelope
      [OF page_app_valid, of not_found_env JNull _
        "JObject [(js ''error'', JBool False), (js ''status_code'', JNumber 404 0),
                  (js ''data'', JObject [(js ''err'', JString (js ''Not found''))])]"]
      page_app_body
    by (simp add: not_found_env_def example_env_def)
  show ?thesis
    by (intro conjI) (rule one, rule two, rule three, rule four)
qed

subsection \<open>C8: the favorite toggle\<close>

text \<open>
  C8, with the store as the specification describes it. For a saved request that the
  store holds, \<open>toggleFavorite\<close> issues a PUT whose payload has the single property
  \<^verbatim>\<open>is_favorite\<close>, the negation of the value it was given; served once, it flips
  \<^verbatim>\<open>is_favorite\<close> of that record, and served again from the flipped value it gives
  the original store back. Patching to the value the record already holds succeeds and
  changes nothing, a patch applied twice with one target value gives what it gave the
  first time, and no patch changes any field other than \<^verbatim>\<open>is_favorite\<close>.
\<close>

theorem favorite_toggle_twice_restores:
  assumes "find (\<lambda>x. sr_id x = i) st = Some r"
  shows
    "hd (drop (length (requests s)) (requests (toggleFavorite env i v s)))
       = Http_put (favorite_url env i) (favorite_patch v)
     \<and> favorite_patch v = JObject [(js ''is_favorite'', JBool (\<not> truthy v))]
     \<and> find (\<lambda>x. sr_id x = i)
          (serve_saved (API env) st (Http_put (favorite_url env i) (favorite_patch (JBool (is_favorite r)))))
         = Some (r\<lparr>is_favorite := \<not> is_favorite r\<rparr>)
     \<and> serve_saved (API env)
          (serve_saved (API env) st (Http_put (favorite_url env i) (favorite_patch (JBool (is_favorite r)))))
          (Http_put (favorite_url env i) (favorite_patch (JBool (\<not> is_favorite r))))
         = st
     \<and> patchFavorite i (is_favorite r) st = Inr st
     \<and> (\<forall>b st1. patchFavorite i b st = Inr st1 \<longrightarrow>
           patchFavorite i b st1 = Inr st1
           \<and> map (\<lambda>x. x\<lparr>is_favorite := c\<rparr>) st1 = map (\<lambda>x. x\<lparr>is_favorite := c\<rparr>) st)"
proof -
  obtain st1 where st1: "patchFavorite i (\<not> is_favorite r) st = Inr st1"
    and found1: "find (\<lambda>x. sr_id x = i) st1 = Some (r\<lparr>is_favorite := \<not> is_favorite r\<rparr>)"
    and again: "patchFavorite i (is_favorite r) st1 = patchFavorite i (is_favorite r) st"
    using patchFavorite_found [OF assms, of "\<not> is_favorite r" "is_favorite r"] by blast
  have same: "patchFavorite i (is_favorite r) st = Inr st"
    by (rule patchFavorite_same_value [OF assms])
  have first: "serve_saved (API env) st (Http_put (favorite_url env i) (favorite_patch (JBool (is_favorite r)))) = st1"
    by (simp add: serve_saved_put st1)
  have second: "serve_saved (API env) st1 (Http_put (favorite_url env i) (favorite_patch (JBool (\<not> is_favorite r)))) = st"
    by (simp add: serve_saved_put again same)
  have c1: "hd (drop (length (requests s)) (requests (toggleFavorite env i v s)))
       = Http_put (favorite_url env i) (favorite_patch v)"
    by (simp add: toggleFavorite_requests)
  have c2: "favorite_patch v = JObject [(js ''is_favorite'', JBool (\<not> truthy v))]"
    by (simp add: favorite_patch_def)
  have c3: "find (\<lambda>x. sr_id x = i)
          (serve_saved (API env) st (Http_put (favorite_url env i) (favorite_patch (JBool (is_favorite r)))))
         = Some (r\<lparr>is_favorite := \<not> is_favorite r\<rparr>)"
    by (simp only: first found1)
  have c4: "serve_saved (API env)
          (serve_saved (API env) st (Http_put (favorite_url env i) (favorite_patch (JBool (is_favorite r)))))
          (Http_put (favorite_url env i) (favorite_patch (JBool (\<not> is_favorite r))))
         = st"
    by (simp only: first second)
  have c6: "\<forall>b st1. patchFavorite i b st = Inr st1 \<longrightarrow>
           patchFavorite i b st1 = Inr st1
           \<and> map (\<lambda>x. x\<lparr>is_favorite := c\<rparr>) st1 = map (\<lambda>x. x\<lparr>is_favorite := c\<rparr>) st"
  proof (intro allI impI conjI)
    fix b st2
    assume p: "patchFavorite i b st = Inr st2"
    show "patchFavorite i b st2 = Inr st2"
      by (rule patchFavorite_idempotent [OF p])
    show "map (\<lambda>x. x\<lparr>is_favorite := c\<rparr>) st2 = map (\<lambda>x. x\<lparr>is_favorite := c\<rparr>) st"
      by (rule patchFavorite_other_fields [OF p])
  qed
  show ?thesis
    by (intro conjI) (rule c1, rule c2, rule c3, rule c4, rule same, rule c6)
qed

theorem favorite_toggle_twice_restores_witness:
  "find (\<lambda>x. sr_id x = js ''r1'') [example_saved] = Some example_saved
   \<and> serve_saved (API example_env) [example_saved]
        (Http_put (favorite_url example_env (js ''r1'')) (favorite_patch (JBool False)))
       = [example_saved\<lparr>is_favorite := True\<rparr>]
   \<and> serve_saved (API example_env) [example_saved\<lparr>is_favorite := True\<rparr>]
        (Http_put (favorite_url example_env (js ''r1'')) (favorite_patch (JBool True)))
       = [example_saved]
   \<and> patchFavorite (js ''r1'') False [example_saved] = Inr [example_saved]"
proof -
  have f: "find (\<lambda>x. sr_id x = js ''r1'') [example_saved] = Some example_saved"
    by (simp add: example_saved_def)
  have v: "is_favorite example_saved = False"
    by (simp add: example_saved_def)
  have k: "sr_id example_saved = js ''r1''"
    by (simp add: example_saved_def)
  have one: "serve_saved (API example_env) [example_saved]
        (Http_put (favorite_url example_env (js ''r1'')) (favorite_patch (JBool False)))
       = [example_saved\<lparr>is_favorite := True\<rparr>]"
    by (simp add: serve_saved_put v k)
  note t = favorite_toggle_twice_restores [OF f, of initial_app example_env JNull False]
  have two: "serve_saved (API example_env) [example_saved\<lparr>is_favorite := True\<rparr>]
        (Http_put (favorite_url example_env (js ''r1'')) (favorite_patch (JBool True)))
       = [example_saved]"
    using t [THEN conjunct2, THEN conjunct2, THEN conjunct2, THEN conjunct1]
    by (simp only: v one not_False_eq_True)
  have three: "patchFavorite (js ''r1'') False [example_saved] = Inr [example_saved]"
    using t [THEN conjunct2, THEN conjunct2, THEN conjunct2, THEN conjunct2, THEN conjunct1]
    by (simp only: v)
  show ?thesis
    by (intro conjI) (rule f, rule one, rule two, rule three)
qed

subsection \<open>C9: the history\<close>

text \<open>
  C9, as the code has it, with the history store as the specification describes it. Every
  invocation of the proxy executor or of the page extractor, whether the upstream answers
  or not, appends exactly one entry with the method, the endpoint, the status code (or
  the sentinel when there is none) and the time. An execution of the front end appends
  exactly one entry when its POST invokes the backend, as every POST that the backend
  answers has done; it appends nothing when the POST does not reach the backend, and
  nothing when the request body is not JSON, because then no call is issued at all. The
  listing is most recent first: three invocations from the empty store list three
  entries, the last one first. Clearing leaves a listing of length 0, and
  \<open>clearHistory\<close> empties the history it shows when the DELETE succeeds.
\<close>

theorem one_history_entry_per_served_execution:
  "snd (execute up spec now h)
     = h @ [history_entry spec (up (rs_method spec) (rs_endpoint spec)) now]
   \<and> snd (executePage no_pages up spec now h)
     = h @ [history_entry spec (up (js ''GET'') (rs_endpoint spec)) now]
   \<and> h_status_code (history_entry spec (Answered st doc) now) = Some st
   \<and> h_status_code (history_entry spec (Unreachable m) now) = None
   \<and> (validate (figmaToken s) (endpoint s) = None \<and> body_value (body s) = Some b
        \<and> served env reached (Http_post (apiEndpoint env (method_sel s)) (payload s b)) \<longrightarrow>
        length (backend_history env no_pages up reached (now, h)
                  (drop (length (requests s)) (requests (executeRequest env s))))
          = length h + 1)
   \<and> (validate (figmaToken s) (endpoint s) = None \<and> body_value (body s) = Some b
        \<and> axios_post env (apiEndpoint env (method_sel s)) (payload s b) = Resolved reply \<longrightarrow>
        length (backend_history env no_pages up reached (now, h)
                  (drop (length (requests s)) (requests (executeRequest env s))))
          = length h + 1)
   \<and> (validate (figmaToken s) (endpoint s) = None \<and> body_value (body s) = Some b
        \<and> \<not> served env reached (Http_post (apiEndpoint env (method_sel s)) (payload s b)) \<longrightarrow>
        backend_history env no_pages up reached (now, h)
          (drop (length (requests s)) (requests (executeRequest env s)))
          = h)
   \<and> (validate (figmaToken s) (endpoint s) = None \<and> body_value (body s) = None \<longrightarrow>
        backend_history env no_pages up reached (now, h)
          (drop (length (requests s)) (requests (executeRequest env s)))
          = h)
   \<and> history_list (snd (execute up s3 t3 (snd (execute up s2 t2 (snd (execute up s1 t1 []))))))
     = [history_entry s3 (up (rs_method s3) (rs_endpoint s3)) t3,
        history_entry s2 (up (rs_method s2) (rs_endpoint s2)) t2,
        history_entry s1 (up (rs_method s1) (rs_endpoint s1)) t1]
   \<and> length (history_list (snd (execute up s3 t3 (snd (execute up s2 t2 (snd (execute up s1 t1 []))))))) = 3
   \<and> length (history_list (history_clear h)) = 0
   \<and> (axios_delete env (API env @ js ''/request-history'') = Resolved d \<longrightarrow>
        history (clearHistory env s) = JArray [])"
proof -
  have a1: "h_status_code (history_entry spec (Answered st doc) now) = Some st"
    by (simp add: history_entry_def)
  have a2: "h_status_code (history_entry spec (Unreachable m) now) = None"
    by (simp add: history_entry_def)
  have b1: "validate (figmaToken s) (endpoint s) = None \<and> body_value (body s) = Some b
        \<and> served env reached (Http_post (apiEndpoint env (method_sel s)) (payload s b)) \<longrightarrow>
        length (backend_history env no_pages up reached (now, h)
                  (drop (length (requests s)) (requests (executeRequest env s))))
          = length h + 1"
    by (simp add: history_after_execution serve_history_post)
  have b2: "validate (figmaToken s) (endpoint s) = None \<and> body_value (body s) = Some b
        \<and> axios_post env (apiEndpoint env (method_sel s)) (payload s b) = Resolved reply \<longrightarrow>
        length (backend_history env no_pages up reached (now, h)
                  (drop (length (requests s)) (requests (executeRequest env s))))
          = length h + 1"
    by (simp add: history_after_execution serve_history_post served_post)
  have b3: "validate (figmaToken s) (endpoint s) = None \<and> body_value (body s) = Some b
        \<and> \<not> served env reached (Http_post (apiEndpoint env (method_sel s)) (payload s b)) \<longrightarrow>
        backend_history env no_pages up reached (now, h)
          (drop (length (requests s)) (requests (executeRequest env s)))
          = h"
    by (simp add: history_after_execution)
  have c: "validate (figmaToken s) (endpoint s) = None \<and> body_value (body s) = None \<longrightarrow>
        backend_history env no_pages up reached (now, h)
          (drop (length (requests s)) (requests (executeRequest env s)))
          = h"
    by (simp add: history_after_execution)
  have d: "history_list (snd (execute up s3 t3 (snd (execute up s2 t2 (snd (execute up s1 t1 []))))))
     = [history_entry s3 (up (rs_method s3) (rs_endpoint s3)) t3,
        history_entry s2 (up (rs_method s2) (rs_endpoint s2)) t2,
        history_entry s1 (up (rs_method s1) (rs_endpoint s1)) t1]"
    by (simp add: execute_history history_list_def)
  have e: "length (history_list (snd (execute up s3 t3 (snd (execute up s2 t2 (snd (execute up s1 t1 []))))))) = 3"
    by (simp add: d)
  have f: "length (history_list (history_clear h)) = 0"
    by (simp add: history_list_def history_clear_def)
  have g: "axios_delete env (API env @ js ''/request-history'') = Resolved d \<longrightarrow>
        history (clearHistory env s) = JArray []"
    by (simp add: clearHistory_def Let_def)
  show ?thesis
    by (intro conjI)
      (rule execute_history, rule executePage_history, rule a1, rule a2, rule b1, rule b2,
        rule b3, rule c, rule d, rule e, rule f, rule g)
qed

theorem one_history_entry_per_served_execution_witness:
  "length (backend_history example_env JNull example_upstream no_network (0, [])
             (requests (executeRequest example_env page_app))) = 1
   \<and> backend_history offline_env JNull example_upstream no_network (0, [])
        (requests (executeRequest offline_env page_app)) = []
   \<and> backend_history example_env JNull example_upstream reliable_network (0, [])
        (requests (executeRequest example_env bad_body_app)) = []
   \<and> history (clearHistory example_env (initial_app\<lparr>history := JArray [JNull]\<rparr>)) = JArray []"
proof -
  note t = one_history_entry_per_served_execution
  have r1: "requests page_app = []" "requests bad_body_app = []"
    by (simp_all add: page_app_def bad_body_app_def initial_app_def)
  have del: "axios_delete example_env (API example_env @ js ''/request-history'') = Resolved JNull"
    by (simp add: example_env_def)
  have answered: "axios_post example_env (apiEndpoint example_env (method_sel page_app)) (payload page_app JNull)
       = Resolved (JObject [(js ''error'', JBool False), (js ''status_code'', JNumber 200 0),
                            (js ''data'', JNull)])"
    by (simp add: example_env_def)
  have lost: "\<not> served offline_env no_network
                 (Http_post (apiEndpoint offline_env (method_sel page_app)) (payload page_app JNull))"
    by (simp add: served_post offline_env_def no_network_def)
  have one: "length (backend_history example_env JNull example_upstream no_network (0, [])
             (requests (executeRequest example_env page_app))) = 1"
    using t [where s = page_app and env = example_env and b = JNull and h = "[]" and now = 0
               and no_pages = JNull and up = example_upstream and reached = no_network
               and reply = "JObject [(js ''error'', JBool False), (js ''status_code'', JNumber 200 0),
                            (js ''data'', JNull)]"]
      page_app_valid page_app_body answered
    by (simp add: r1)
  have two: "backend_history offline_env JNull example_upstream no_network (0, [])
        (requests (executeRequest offline_env page_app)) = []"
    using t [where s = page_app and env = offline_env and b = JNull and h = "[]" and now = 0
               and no_pages = JNull and up = example_upstream and reached = no_network]
      page_app_valid page_app_body lost
    by (simp add: r1)
  have four: "backend_history example_env JNull example_upstream reliable_network (0, [])
        (requests (executeRequest example_env bad_body_app)) = []"
    using t [where s = bad_body_app and env = example_env and h = "[]" and now = 0
               and no_pages = JNull and up = example_upstream and reached = reliable_network]
      bad_body_app_valid bad_body_app_body
    by (simp add: r1)
  have five: "history (clearHistory example_env (initial_app\<lparr>history := JArray [JNull]\<rparr>)) = JArray []"
    using t [where s = "initial_app\<lparr>history := JArray [JNull]\<rparr>" and env = example_env and d = JNull] del
    by simp
  show ?thesis
    by (intro conjI) (rule one, rule two, rule four, rule five)
qed

text \<open>
  The claim as stated fails: a POST whose body is \<^verbatim>\<open>{\<close> passes validation and fails
  with the error envelope, yet no HTTP call is issued, so the backend is never invoked
  and, even on a network that loses nothing, the history store has no entry where the
  claim requires exactly one.
\<close>

theorem malformed_body_appends_no_history_counterexample:
  "validate (figmaToken bad_body_app) (endpoint bad_body_app) = None
   \<and> response (executeRequest example_env bad_body_app)
       = JObject [(js ''error'', JBool True),
                  (js ''message'', JString (js ''Unexpected end of JSON input''))]
   \<and> requests (executeRequest example_env bad_body_app) = []
   \<and> backend_history example_env JNull example_upstream reliable_network (0, [])
        (requests (executeRequest example_env bad_body_app)) = []
   \<and> length (backend_history example_env JNull example_upstream reliable_network (0, [])
                (requests (executeRequest example_env bad_body_app))) \<noteq> 1"
proof -
  have r: "requests (executeRequest example_env bad_body_app) = []"
    by (simp add: executeRequest_requests bad_body_app_valid bad_body_app_body)
      (simp add: bad_body_app_def initial_app_def)
  have resp: "response (executeRequest example_env bad_body_app)
       = JObject [(js ''error'', JBool True),
                  (js ''message'', JString (js ''Unexpected end of JSON input''))]"
    by (simp add: executeRequest_body_error [OF bad_body_app_valid bad_body_app_body]
        request_failed_def error_message_def error_detail_def example_env_def)
  show ?thesis
    by (simp add: r resp bad_body_app_valid backend_history_def)
qed

subsection \<open>C10: the order of the checks\<close>

text \<open>
  C10. One attempt raises exactly one validation error, that of the first failing check
  in the order credential, endpoint, placeholder: without a token the credential error
  alone, whatever the endpoint; with a token and an empty endpoint the endpoint error
  alone; with a token and a non-empty endpoint that contains a colon the placeholder
  error alone.
\<close>

theorem first_failing_check_is_reported:
  "(figmaToken s = [] \<longrightarrow>
      toasts (executeRequest env s) = toasts s @ [Toast_error ''Please add your Figma token first''])
   \<and> (figmaToken s \<noteq> [] \<and> endpoint s = [] \<longrightarrow>
      toasts (executeRequest env s) = toasts s @ [Toast_error ''Please enter an endpoint''])
   \<and> (figmaToken s \<noteq> [] \<and> endpoint s \<noteq> [] \<and> 58 \<in> set (endpoint s) \<longrightarrow>
      toasts (executeRequest env s)
        = toasts s @ [Toast_error ''Please replace placeholder parameters (e.g., :file_key) with actual values''])"
  by (simp add: executeRequest_def validate_def reject_def)

theorem first_failing_check_is_reported_witness:
  "toasts (executeRequest example_env (initial_app\<lparr>endpoint := js '':file_key''\<rparr>))
     = [Toast_error ''Please add your Figma token first'']
   \<and> toasts (executeRequest example_env initial_app)
     = [Toast_error ''Please add your Figma token first'']
   \<and> toasts (executeRequest example_env (initial_app\<lparr>figmaToken := js ''tok''\<rparr>))
     = [Toast_error ''Please enter an endpoint'']
   \<and> toasts (executeRequest example_env (initial_app\<lparr>figmaToken := js ''tok'', endpoint := js '':file_key''\<rparr>))
     = [Toast_error ''Please replace placeholder parameters (e.g., :file_key) with actual values'']"
  using
    first_failing_check_is_reported [of "initial_app\<lparr>endpoint := js '':file_key''\<rparr>" example_env]
    first_failing_check_is_reported [of initial_app example_env]
    first_failing_check_is_reported [of "initial_app\<lparr>figmaToken := js ''tok''\<rparr>" example_env]
    first_failing_check_is_reported
      [of "initial_app\<lparr>figmaToken := js ''tok'', endpoint := js '':file_key''\<rparr>" example_env]
  by (simp add: initial_app_def js_def)

end
